theory Spec2Isabelle
  imports Main "HOL-Library.Char_ord" "HOL-Library.List_Lexorder" "HOL-Library.DAList"
begin

section \<open>The notebook package\<close>

text \<open>
  A shallow embedding of \<^verbatim>\<open>notebook.go\<close>.  Go strings and \<^verbatim>\<open>bytes.Buffer\<close> contents are
  byte sequences, here \<^typ>\<open>string\<close> (a list of 8-bit characters).  Methods on
  \<^verbatim>\<open>*Notebook\<close> become functions that take the notebook and return it updated.  Go's
  \<^verbatim>\<open>map[string]string\<close> becomes an association list with distinct keys whose order stands
  for the order in which the runtime happens to iterate the map; the nil map is \<open>None\<close>.
  Strings are compared bytewise and lexicographically, as Go compares them.
\<close>

subsection \<open>Errors and panics\<close>

datatype error =
    Underlying string
  | errorString string
  | wrapError string error

text \<open>\<open>Underlying\<close> is an error produced by the operating system or by a sink;
  \<open>errorString\<close> is what \<^verbatim>\<open>fmt.Errorf\<close> builds without a \<^verbatim>\<open>%w\<close> verb and
  \<open>wrapError\<close> what it builds with one.\<close>

fun Error :: "error \<Rightarrow> string" where
  "Error (Underlying m) = m"
| "Error (errorString m) = m"
| "Error (wrapError m e) = m"

fun Unwrap :: "error \<Rightarrow> error option" where
  "Unwrap (wrapError m e) = Some e"
| "Unwrap (Underlying m) = None"
| "Unwrap (errorString m) = None"

datatype panic = AssignToNilMap | IndexOutOfRange

subsection \<open>Go maps from string to string\<close>

type_synonym gomap = "(string, string) alist option"

definition make_map :: gomap where
  "make_map = Some DAList.empty"

text \<open>\<^verbatim>\<open>m[k] = v\<close>: panics on the nil map.\<close>

definition map_assign :: "gomap \<Rightarrow> string \<Rightarrow> string \<Rightarrow> panic + gomap" where
  "map_assign m k v =
     (case m of
        None \<Rightarrow> Inl AssignToNilMap
      | Some al \<Rightarrow> Inr (Some (DAList.update k v al)))"

text \<open>\<^verbatim>\<open>m[k]\<close>: the zero value \<^verbatim>\<open>""\<close> for an absent key, also on the nil map.\<close>

definition map_index :: "gomap \<Rightarrow> string \<Rightarrow> string" where
  "map_index m k =
     (case m of
        None \<Rightarrow> []
      | Some al \<Rightarrow> (case DAList.lookup al k of None \<Rightarrow> [] | Some v \<Rightarrow> v))"

text \<open>\<^verbatim>\<open>maps.Keys(m)\<close> collected into a slice: the keys in iteration order.\<close>

definition maps_Keys :: "gomap \<Rightarrow> string list" where
  "maps_Keys m = (case m of None \<Rightarrow> [] | Some al \<Rightarrow> map fst (DAList.impl_of al))"

text \<open>The mapping a Go map denotes, whatever its iteration order.\<close>

definition entries :: "gomap \<Rightarrow> string \<Rightarrow> string option" where
  "entries m = (case m of None \<Rightarrow> Map.empty | Some al \<Rightarrow> DAList.lookup al)"

subsection \<open>Cells and notebooks\<close>

definition HeaderCellStyle :: string where
  "HeaderCellStyle = ''cell-style''"

record cell =
  content :: string
  Title :: string

definition newCell :: cell where
  "newCell = \<lparr>content = [], Title = []\<rparr>"

text \<open>\<^verbatim>\<open>bytes.Buffer\<close>: \<^verbatim>\<open>WriteString\<close> and \<^verbatim>\<open>Write\<close> append and report the number of
  bytes taken, never an error; \<^verbatim>\<open>String\<close> reads the contents.\<close>

definition Buffer_Write :: "string \<Rightarrow> string \<Rightarrow> (nat \<times> error option) \<times> string" where
  "Buffer_Write p b = ((length p, None), b @ p)"

definition Buffer_String :: "string \<Rightarrow> string" where
  "Buffer_String b = b"

text \<open>Values reaching the template carry their Go type: a plain \<^verbatim>\<open>string\<close> or a
  \<^verbatim>\<open>template.HTML\<close>.\<close>

datatype tvalue = StringVal string | HTMLVal string

definition Content :: "cell \<Rightarrow> tvalue" where
  "Content c = HTMLVal (Buffer_String (content c))"

record Notebook =
  Title :: string
  Output :: string
  cells :: "cell list"
  headers :: gomap
  console :: string

subsection \<open>Literal text\<close>

definition tabs :: "nat \<Rightarrow> string" where
  "tabs n = replicate n (CHR 0x09)"

definition cellStyle :: string where
  \<open>cellStyle =
     ''<style>\<newline>''
     @ tabs 1 @ ''.cell-container {\<newline>''
     @ tabs 2 @ ''display: flex;\<newline>''
     @ tabs 2 @ ''flex-direction: column;\<newline>''
     @ tabs 1 @ ''}\<newline>''
     @ tabs 1 @ ''details.cell {\<newline>''
     @ tabs 2 @ ''border: 1px solid #aaa;\<newline>''
     @ tabs 2 @ ''border-radius: 4px;\<newline>''
     @ tabs 2 @ ''padding: 0.5em 0.5em 0;\<newline>''
     @ tabs 2 @ ''display: block;\<newline>''
     @ tabs 1 @ ''}\<newline>''
     @ tabs 1 @ ''details.cell > summary {\<newline>''
     @ tabs 2 @ ''font-weight: bold;\<newline>''
     @ tabs 2 @ ''margin: -0.5em -0.5em 0;\<newline>''
     @ tabs 2 @ ''padding: 0.5em;\<newline>''
     @ tabs 1 @ ''}\<newline>''
     @ tabs 1 @ ''details[open].cell {\<newline>''
     @ tabs 2 @ ''padding: 0.5em;\<newline>''
     @ tabs 1 @ ''}\<newline>''
     @ tabs 1 @ ''details[open].cell > summary {\<newline>''
     @ tabs 2 @ ''border-bottom: 1px solid #aaa;\<newline>''
     @ tabs 2 @ ''margin-bottom: 0.5em;\<newline>''
     @ tabs 1 @ ''}\<newline>''
     @ ''</style>''\<close>


text \<open>\<^verbatim>\<open>path.Base\<close>: the last element of a slash-separated path.\<close>

definition path_Base :: "string \<Rightarrow> string" where
  "path_Base p =
     (if p = [] then ''.''
      else
        let p1 = rev (dropWhile (\<lambda>c. c = CHR ''/'') (rev p));
            p2 = rev (takeWhile (\<lambda>c. c \<noteq> CHR ''/'') (rev p1))
        in if p2 = [] then ''/'' else p2)"

text \<open>\<^verbatim>\<open>New\<close> reads \<^verbatim>\<open>os.Args[0]\<close>, which panics when the argument vector is empty.
  \<^verbatim>\<open>strings.Title\<close> depends on the Unicode tables of the Go library and is a parameter.\<close>

definition New :: "(string \<Rightarrow> string) \<Rightarrow> string list \<Rightarrow> panic + Notebook" where
  "New strings_Title os_Args =
     (case os_Args of
        [] \<Rightarrow> Inl IndexOutOfRange
      | arg0 # _ \<Rightarrow>
          (let name = path_Base arg0
           in Inr \<lparr>Title = strings_Title name,
                   Output = name @ ''.html'',
                   cells = [],
                   headers = Some (DAList.update HeaderCellStyle cellStyle DAList.empty),
                   console = []\<rparr>))"

text \<open>The zero value \<^verbatim>\<open>Notebook{}\<close>.\<close>

definition zero_Notebook :: Notebook where
  "zero_Notebook = \<lparr>Title = [], Output = [], cells = [], headers = None, console = []\<rparr>"

definition AddContent :: "Notebook \<Rightarrow> string \<Rightarrow> string \<Rightarrow> Notebook" where
  "AddContent nb title html =
     (let c = newCell;
          c = c\<lparr>cell.Title := title\<rparr>;
          c = c\<lparr>content := snd (Buffer_Write html (content c))\<rparr>
      in nb\<lparr>cells := cells nb @ [c]\<rparr>)"

definition AddHeader :: "Notebook \<Rightarrow> string \<Rightarrow> string \<Rightarrow> panic + Notebook" where
  "AddHeader nb ident html =
     (let nb1 = (if headers nb = None then nb\<lparr>headers := make_map\<rparr> else nb)
      in case map_assign (headers nb1) ident html of
           Inl p \<Rightarrow> Inl p
         | Inr m \<Rightarrow> Inr (nb1\<lparr>headers := m\<rparr>))"

text \<open>\<^verbatim>\<open>Print\<close>, \<^verbatim>\<open>Printf\<close> and \<^verbatim>\<open>Println\<close> hand their operands to \<^verbatim>\<open>fmt.Fprint\<close>,
  \<^verbatim>\<open>fmt.Fprintf\<close> and \<^verbatim>\<open>fmt.Fprintln\<close>, which format them into one byte string and pass
  it to the console buffer in a single \<^verbatim>\<open>Write\<close>.  The formatting functions of \<^verbatim>\<open>fmt\<close>
  are parameters.\<close>

definition Print :: "('a \<Rightarrow> string) \<Rightarrow> Notebook \<Rightarrow> 'a \<Rightarrow> (nat \<times> error option) \<times> Notebook" where
  "Print Sprint nb a =
     (let (r, b) = Buffer_Write (Sprint a) (console nb) in (r, nb\<lparr>console := b\<rparr>))"

definition Printf ::
  "(string \<Rightarrow> 'a \<Rightarrow> string) \<Rightarrow> Notebook \<Rightarrow> string \<Rightarrow> 'a \<Rightarrow> (nat \<times> error option) \<times> Notebook" where
  "Printf Sprintf nb format a =
     (let (r, b) = Buffer_Write (Sprintf format a) (console nb) in (r, nb\<lparr>console := b\<rparr>))"

definition Println :: "('a \<Rightarrow> string) \<Rightarrow> Notebook \<Rightarrow> 'a \<Rightarrow> (nat \<times> error option) \<times> Notebook" where
  "Println Sprintln nb a =
     (let (r, b) = Buffer_Write (Sprintln a) (console nb) in (r, nb\<lparr>console := b\<rparr>))"

subsection \<open>The view handed to the template\<close>

text \<open>\<^verbatim>\<open>nbView\<close> wraps the pointer to the notebook, so its methods are functions of
  the notebook.  \<^verbatim>\<open>Headers\<close> collects the keys, sorts them and looks each one up.\<close>

definition Headers :: "Notebook \<Rightarrow> tvalue list" where
  "Headers nbv =
     (let keys = maps_Keys (headers nbv);
          keys = sort keys
      in map (\<lambda>k. HTMLVal (map_index (headers nbv) k)) keys)"

definition Cells :: "Notebook \<Rightarrow> cell list" where
  "Cells nbv = cells nbv"

definition Console :: "Notebook \<Rightarrow> string" where
  "Console nbv = Buffer_String (console nbv)"

subsection \<open>Contextual escaping of \<^verbatim>\<open>html/template\<close>\<close>

text \<open>
  The replacement tables of \<^verbatim>\<open>html/template\<close>; \<open>[]\<close> stands for "no replacement".
  Every replaced character is ASCII and every other rune is copied unchanged, so the
  rune loop of \<^verbatim>\<open>htmlReplacer\<close> acts byte by byte.
\<close>

definition htmlReplacementTable :: "char \<Rightarrow> string" where
  "htmlReplacementTable c =
     (if c = CHR 0x00 then [CHR 0xEF, CHR 0xBF, CHR 0xBD]
      else if c = CHR 0x22 then ''&#34;''
      else if c = CHR ''&'' then ''&amp;''
      else if c = CHR 0x27 then ''&#39;''
      else if c = CHR ''+'' then ''&#43;''
      else if c = CHR ''<'' then ''&lt;''
      else if c = CHR ''>'' then ''&gt;''
      else [])"

definition htmlNormReplacementTable :: "char \<Rightarrow> string" where
  "htmlNormReplacementTable c =
     (if c = CHR 0x00 then [CHR 0xEF, CHR 0xBF, CHR 0xBD]
      else if c = CHR 0x22 then ''&#34;''
      else if c = CHR 0x27 then ''&#39;''
      else if c = CHR ''+'' then ''&#43;''
      else if c = CHR ''<'' then ''&lt;''
      else if c = CHR ''>'' then ''&gt;''
      else [])"

fun htmlReplacer :: "string \<Rightarrow> (char \<Rightarrow> string) \<Rightarrow> string" where
  "htmlReplacer [] table = []"
| "htmlReplacer (c # s) table =
     (if table c = [] then c # htmlReplacer s table else table c @ htmlReplacer s table)"

text \<open>The escaper of an action in element content: \<^verbatim>\<open>template.HTML\<close> passes verbatim.\<close>

fun htmlEscaper :: "tvalue \<Rightarrow> string" where
  "htmlEscaper (HTMLVal s) = s"
| "htmlEscaper (StringVal s) = htmlReplacer s htmlReplacementTable"

text \<open>The escaper of an action inside \<^verbatim>\<open><title>\<close>, an RCDATA element.\<close>

fun rcdataEscaper :: "tvalue \<Rightarrow> string" where
  "rcdataEscaper (HTMLVal s) = htmlReplacer s htmlNormReplacementTable"
| "rcdataEscaper (StringVal s) = htmlReplacer s htmlReplacementTable"

subsection \<open>The template and its execution\<close>

text \<open>The text nodes of the template.\<close>

definition text_head_open :: string where
  \<open>text_head_open =
     ''<!DOCTYPE html>\<newline><html>\<newline>'' @ tabs 1 @ ''<head>''\<close>

definition text_head_close :: string where
  \<open>text_head_close =
     ''</head>\<newline>'' @ tabs 1 @ ''<body>\<newline>'' @ tabs 2\<close>

definition text_container_open :: string where
  \<open>text_container_open =
     ''\<newline>'' @ tabs 2 @ ''<div class="cell-container">''\<close>

definition text_cell_open :: string where
  \<open>text_cell_open =
     ''\<newline>'' @ tabs 3 @ ''<details open class="cell">\<newline>'' @ tabs 4 @ ''<summary>''\<close>

definition text_cell_mid :: string where
  \<open>text_cell_mid =
     ''</summary>\<newline>'' @ tabs 4\<close>

definition text_cell_close :: string where
  \<open>text_cell_close =
     ''\<newline>'' @ tabs 3 @ ''</details>''\<close>

definition text_console_open :: string where
  \<open>text_console_open =
     ''\<newline>'' @ tabs 3 @ ''<details open class="cell">\<newline>'' @ tabs 4 @ ''<summary>Console</summary>\<newline>'' @ tabs 4 @ ''<pre>''\<close>

definition text_console_close :: string where
  \<open>text_console_close =
     ''</pre>\<newline>'' @ tabs 3 @ ''</details>\<newline>'' @ tabs 2 @ ''</div>\<newline>'' @ tabs 1 @ ''</body>\<newline></html>''\<close>


text \<open>
  \<open>nbTemplate\<close> lists, in order, the byte strings that executing the parsed template
  hands to the sink: one \<^verbatim>\<open>Write\<close> per text node and one per action.  The text nodes are
  the template's literal text after the trim markers \<^verbatim>\<open>{{-\<close> and \<^verbatim>\<open>-}}\<close> have removed the
  adjacent white space.  \<^verbatim>\<open>{{with .Title}}\<close> skips its body for the empty string.
\<close>

definition cell_nodes :: "cell \<Rightarrow> string list" where
  "cell_nodes c =
     [text_cell_open, htmlEscaper (StringVal (cell.Title c)),
      text_cell_mid, htmlEscaper (Content c),
      text_cell_close]"

definition nbTemplate :: "Notebook \<Rightarrow> string list" where
  "nbTemplate nbv =
     [text_head_open]
     @ (if Title nbv = [] then []
        else [''<title>'', rcdataEscaper (StringVal (Title nbv)), ''</title>''])
     @ map htmlEscaper (Headers nbv)
     @ [text_head_close]
     @ (if Title nbv = [] then []
        else [''<h1>'', htmlEscaper (StringVal (Title nbv)), ''</h1>''])
     @ [text_container_open]
     @ concat (map cell_nodes (Cells nbv))
     @ [text_console_open, htmlEscaper (StringVal (Console nbv)), text_console_close]"

text \<open>An \<^verbatim>\<open>io.Writer\<close> with state \<open>'s\<close>: \<^verbatim>\<open>Write(p)\<close> returns \<^verbatim>\<open>(n, err)\<close>.\<close>

type_synonym 's Writer = "string \<Rightarrow> 's \<Rightarrow> (nat \<times> error option) \<times> 's"

text \<open>Execution writes piece after piece and stops at the first \<^verbatim>\<open>Write\<close> that returns
  an error, which becomes the result.\<close>

fun Execute :: "'s Writer \<Rightarrow> string list \<Rightarrow> 's \<Rightarrow> error option \<times> 's" where
  "Execute w [] s = (None, s)"
| "Execute w (p # ps) s =
     (case w p s of
        ((n, Some err), s') \<Rightarrow> (Some err, s')
      | ((n, None), s') \<Rightarrow> Execute w ps s')"

definition Render :: "'s Writer \<Rightarrow> Notebook \<Rightarrow> 's \<Rightarrow> error option \<times> Notebook \<times> 's" where
  "Render w nb s = (let (r, s') = Execute w (nbTemplate nb) s in (r, nb, s'))"

subsection \<open>Writing the output file\<close>

text \<open>The operating system as seen by \<^verbatim>\<open>Close\<close>: \<^verbatim>\<open>os.Create\<close>, and \<^verbatim>\<open>Write\<close> and
  \<^verbatim>\<open>Close\<close> of the file it returns, over a file-system state \<open>'fs\<close>.\<close>

record ('fs, 'f) os =
  os_Create :: "string \<Rightarrow> 'fs \<Rightarrow> (error + 'f) \<times> 'fs"
  File_Write :: "'f \<Rightarrow> string \<Rightarrow> 'fs \<Rightarrow> (nat \<times> error option) \<times> 'fs"
  File_Close :: "'f \<Rightarrow> 'fs \<Rightarrow> error option \<times> 'fs"

text \<open>\<^verbatim>\<open>Close\<close>; \<open>quote\<close> is \<^verbatim>\<open>strconv.Quote\<close>, the \<^verbatim>\<open>%q\<close> verb.  The deferred
  \<^verbatim>\<open>f.Close()\<close> runs on both paths after the file was created; its result is dropped.\<close>

definition Close ::
  "('fs, 'f) os \<Rightarrow> (string \<Rightarrow> string) \<Rightarrow> Notebook \<Rightarrow> 'fs \<Rightarrow> error option \<times> Notebook \<times> 'fs" where
  "Close sys quote nb fs =
     (case os_Create sys (Output nb) fs of
        (Inl err, fs1) \<Rightarrow>
          (Some (errorString (''cannot create output file '' @ quote (Output nb))), nb, fs1)
      | (Inr f, fs1) \<Rightarrow>
          (case Render (File_Write sys f) nb fs1 of
             (Some err, nb1, fs2) \<Rightarrow>
               (Some (wrapError (''cannot render notebook: '' @ Error err) err),
                nb1, snd (File_Close sys f fs2))
           | (None, nb1, fs2) \<Rightarrow> (None, nb1, snd (File_Close sys f fs2))))"

subsection \<open>Sequences of calls\<close>

text \<open>A run of \<^verbatim>\<open>AddContent\<close> calls, and a run of \<^verbatim>\<open>AddHeader\<close> calls, each given as
  the list of its argument pairs in call order.  A panic ends the run.\<close>

fun AddContents :: "Notebook \<Rightarrow> (string \<times> string) list \<Rightarrow> Notebook" where
  "AddContents nb [] = nb"
| "AddContents nb ((title, html) # calls) = AddContents (AddContent nb title html) calls"

fun AddHeaders :: "Notebook \<Rightarrow> (string \<times> string) list \<Rightarrow> panic + Notebook" where
  "AddHeaders nb [] = Inr nb"
| "AddHeaders nb ((ident, html) # calls) =
     (case AddHeader nb ident html of
        Inl p \<Rightarrow> Inl p
      | Inr nb1 \<Rightarrow> AddHeaders nb1 calls)"

text \<open>The results of the \<^verbatim>\<open>Write\<close> calls that an execution makes, in order: execution
  makes no further call after one that failed.\<close>

fun writes :: "'s Writer \<Rightarrow> string list \<Rightarrow> 's \<Rightarrow> error option list" where
  "writes w [] s = []"
| "writes w (p # ps) s =
     (case w p s of
        ((n, Some err), s') \<Rightarrow> [Some err]
      | ((n, None), s') \<Rightarrow> None # writes w ps s')"

subsection \<open>The layout of the rendered page, as the specification describes it\<close>

text \<open>The head fragments of a header mapping: the ids in ascending order, each
  replaced by its fragment.\<close>

definition head_fragments :: "(string \<Rightarrow> string option) \<Rightarrow> string list" where
  "head_fragments m =
     map (\<lambda>k. case m k of None \<Rightarrow> [] | Some v \<Rightarrow> v) (sorted_list_of_set (dom m))"

text \<open>Literal text: every character with a meaning in HTML replaced by its entity.\<close>

definition literal_text :: "string \<Rightarrow> string" where
  "literal_text s = htmlReplacer s htmlReplacementTable"

definition doc_title :: "string \<Rightarrow> string" where
  "doc_title t = (if t = [] then [] else ''<title>'' @ literal_text t @ ''</title>'')"

definition doc_h1 :: "string \<Rightarrow> string" where
  "doc_h1 t = (if t = [] then [] else ''<h1>'' @ literal_text t @ ''</h1>'')"

definition doc_cell :: "string \<Rightarrow> string \<Rightarrow> string" where
  "doc_cell title html =
     text_cell_open @ literal_text title @ text_cell_mid @ html @ text_cell_close"

definition doc_console :: "string \<Rightarrow> string" where
  "doc_console text = text_console_open @ literal_text text @ text_console_close"

text \<open>Everything up to the first cell block.\<close>

definition doc_preamble :: "Notebook \<Rightarrow> string" where
  "doc_preamble nb =
     text_head_open @ doc_title (Title nb) @ concat (head_fragments (entries (headers nb)))
     @ text_head_close @ doc_h1 (Title nb) @ text_container_open"

definition doc_page :: "Notebook \<Rightarrow> string" where
  "doc_page nb =
     doc_preamble nb
     @ concat (map (\<lambda>c. doc_cell (cell.Title c) (content c)) (cells nb))
     @ doc_console (console nb)"

subsection \<open>Concrete sinks and a concrete file system\<close>

text \<open>A sink that rejects every write, as a closed stream does.\<close>

definition closed_Writer :: "unit Writer" where
  "closed_Writer p s = ((0, Some (Underlying ''write on closed stream'')), s)"

text \<open>A sink with room for a number of bytes: a write that does not fit takes what fits
  and fails.\<close>

definition limited_Writer :: "(nat \<times> string) Writer" where
  "limited_Writer p s =
     (case s of (room, buf) \<Rightarrow>
        if length p \<le> room then ((length p, None), (room - length p, buf @ p))
        else ((room, Some (Underlying ''no space left on device'')), (0, buf @ take room p)))"

text \<open>A file system in memory: files by path, a path being creatable unless it is
  empty; the file handle is the path.\<close>

definition mem_os :: "((string \<times> string) list, string) os" where
  "mem_os =
     \<lparr>os_Create = (\<lambda>path fs.
          if path = [] then (Inl (Underlying ''open : no such file or directory''), fs)
          else (Inr path, AList.update path [] fs)),
      File_Write = (\<lambda>f p fs.
          ((length p, None),
           AList.update f ((case map_of fs f of None \<Rightarrow> [] | Some old \<Rightarrow> old) @ p) fs)),
      File_Close = (\<lambda>f fs. (None, fs))\<rparr>"

text \<open>The same file system on a device that is full: files are created, writes fail.\<close>

definition full_os :: "((string \<times> string) list, string) os" where
  "full_os =
     mem_os\<lparr>File_Write := (\<lambda>f p fs. ((0, Some (Underlying ''no space left on device'')), fs))\<rparr>"

text \<open>\<^verbatim>\<open>fmt.Sprint\<close> and \<^verbatim>\<open>fmt.Sprintln\<close> on operands that are all strings: the first
  concatenates them, the second puts a space between them and a newline at the end.\<close>

definition Sprint_strings :: "string list \<Rightarrow> string" where
  "Sprint_strings a = concat a"

fun Sprintln_strings :: "string list \<Rightarrow> string" where
  "Sprintln_strings [] = ''\<newline>''"
| "Sprintln_strings [x] = x @ ''\<newline>''"
| "Sprintln_strings (x # y # a) = x @ '' '' @ Sprintln_strings (y # a)"

text \<open>The file system in memory with a file whose \<^verbatim>\<open>Close\<close> reports an error.\<close>

definition closefail_os :: "((string \<times> string) list, string) os" where
  "closefail_os =
     mem_os\<lparr>File_Close := (\<lambda>f fs. (Some (Underlying ''input/output error''), fs))\<rparr>"

text \<open>\<^verbatim>\<open>strings.Title\<close> on ASCII input: the first letter of every word in upper case, a
  word starting after any character that is not a letter, a digit or an underscore.\<close>

definition isSeparator :: "char \<Rightarrow> bool" where
  "isSeparator r =
     (if CHR ''0'' \<le> r \<and> r \<le> CHR ''9'' then False
      else if CHR ''a'' \<le> r \<and> r \<le> CHR ''z'' then False
      else if CHR ''A'' \<le> r \<and> r \<le> CHR ''Z'' then False
      else if r = CHR ''_'' then False
      else True)"

definition ToTitle :: "char \<Rightarrow> char" where
  "ToTitle r =
     (if CHR ''a'' \<le> r \<and> r \<le> CHR ''z'' then char_of (of_char r - (32 :: nat)) else r)"

fun Title_map :: "char \<Rightarrow> string \<Rightarrow> string" where
  "Title_map prev [] = []"
| "Title_map prev (r # s) = (if isSeparator prev then ToTitle r else r) # Title_map r s"

definition strings_Title_ascii :: "string \<Rightarrow> string" where
  "strings_Title_ascii s = Title_map (CHR '' '') s"

subsection \<open>Example notebooks\<close>

definition example_nb :: Notebook where
  \<open>example_nb =
     \<lparr>Title = ''R&D <demo>'', Output = ''demo.html'', cells = [],
      headers = Some (DAList.update ''b-meta'' ''<meta charset="utf-8">''
                       (DAList.update ''a-style'' ''<style></style>'' DAList.empty)),
      console = ''x < y''\<rparr>\<close>

text \<open>The same notebook with its header map iterating in the other order.\<close>

definition example_nb_permuted :: Notebook where
  \<open>example_nb_permuted =
     example_nb\<lparr>headers := Some (DAList.update ''a-style'' ''<style></style>''
                       (DAList.update ''b-meta'' ''<meta charset="utf-8">'' DAList.empty))\<rparr>\<close>

definition example_calls :: "(string \<times> string) list" where
  "example_calls =
     [(''Plot <1>'', ''<svg></svg>''), (''Table'', ''<table><tr><td>1 & 2</td></tr></table>'')]"

text \<open>The expected output of the package's example \<^verbatim>\<open>ExampleNew_Simple\<close>.\<close>

definition example_output :: string where
  \<open>example_output =
     ''<!DOCTYPE html>\<newline>''
     @ ''<html>\<newline>''
     @ tabs 1 @ ''<head><title>Notebook.Test</title></head>\<newline>''
     @ tabs 1 @ ''<body>\<newline>''
     @ tabs 2 @ ''<h1>Notebook.Test</h1>\<newline>''
     @ tabs 2 @ ''<div class="cell-container">\<newline>''
     @ tabs 3 @ ''<details open class="cell">\<newline>''
     @ tabs 4 @ ''<summary>Console</summary>\<newline>''
     @ tabs 4 @ ''<pre>Hello world</pre>\<newline>''
     @ tabs 3 @ ''</details>\<newline>''
     @ tabs 2 @ ''</div>\<newline>''
     @ tabs 1 @ ''</body>\<newline>''
     @ ''</html>''\<close>

section \<open>Auxiliary facts\<close>

lemma htmlReplacer_append:
  "htmlReplacer (s @ t) table = htmlReplacer s table @ htmlReplacer t table"
  by (induction s) simp_all

lemma Execute_Buffer_Write:
  "Execute Buffer_Write ps b = (None, b @ concat ps)"
  by (induction ps arbitrary: b) (simp_all add: Buffer_Write_def)

lemma Render_Buffer_Write:
  "Render Buffer_Write nb b = (None, nb, b @ concat (nbTemplate nb))"
  by (simp add: Render_def Execute_Buffer_Write)

lemma distinct_maps_Keys: "distinct (maps_Keys m)"
  by (cases m) (simp_all add: maps_Keys_def)

lemma set_maps_Keys: "set (maps_Keys m) = dom (entries m)"
  by (cases m) (simp_all add: maps_Keys_def entries_def DAList.lookup.rep_eq dom_map_of_conv_image_fst)

lemma map_index_entries:
  "map_index m k = (case entries m k of None \<Rightarrow> [] | Some v \<Rightarrow> v)"
  by (cases m) (simp_all add: map_index_def entries_def)

lemma sort_maps_Keys:
  "sort (maps_Keys m) = sorted_list_of_set (dom (entries m))"
  by (metis distinct_maps_Keys set_maps_Keys sorted_list_of_set_sort_remdups distinct_remdups_id)

lemma Headers_fragments:
  "map htmlEscaper (Headers nb) = head_fragments (entries (headers nb))"
  by (simp add: Headers_def head_fragments_def sort_maps_Keys map_index_entries o_def)

lemma concat_cell_nodes:
  "concat (cell_nodes c) = doc_cell (cell.Title c) (content c)"
  by (simp add: cell_nodes_def doc_cell_def literal_text_def Content_def Buffer_String_def)

lemma concat_concat_map:
  "concat (concat (map f xs)) = concat (map (\<lambda>x. concat (f x)) xs)"
  by (induction xs) simp_all

lemma concat_nbTemplate: "concat (nbTemplate nb) = doc_page nb"
  by (simp add: nbTemplate_def doc_page_def doc_preamble_def doc_title_def doc_h1_def
      doc_console_def literal_text_def Headers_fragments Cells_def Console_def
      Buffer_String_def concat_cell_nodes concat_concat_map)

lemma AddHeader_Inr:
  "AddHeader nb i v =
     Inr (nb\<lparr>headers := Some (DAList.update i v
            (case headers nb of None \<Rightarrow> DAList.empty | Some al \<Rightarrow> al))\<rparr>)"
  by (cases "headers nb") (simp_all add: AddHeader_def make_map_def map_assign_def)

lemma entries_AddHeader:
  "AddHeader nb i v = Inr nb' \<Longrightarrow> entries (headers nb') = (entries (headers nb))(i \<mapsto> v)"
  by (cases "headers nb") (auto simp: AddHeader_Inr entries_def DAList.lookup_update fun_eq_iff)

lemma AddHeader_fields:
  "AddHeader nb i v = Inr nb' \<Longrightarrow>
     Title nb' = Title nb \<and> Output nb' = Output nb \<and> cells nb' = cells nb \<and> console nb' = console nb"
  by (auto simp: AddHeader_Inr)

lemma AddHeaders_Inr:
  "\<exists>nb'. AddHeaders nb hs = Inr nb'
     \<and> entries (headers nb') = entries (headers nb) ++ map_of (rev hs)
     \<and> Title nb' = Title nb \<and> Output nb' = Output nb
     \<and> cells nb' = cells nb \<and> console nb' = console nb"
proof (induction hs arbitrary: nb)
  case Nil
  show ?case by simp
next
  case (Cons h hs)
  obtain i v where h: "h = (i, v)" by (cases h)
  obtain nb1 where nb1: "AddHeader nb i v = Inr nb1"
    by (simp add: AddHeader_Inr)
  from Cons.IH [of nb1] obtain nb' where
    run: "AddHeaders nb1 hs = Inr nb'" and
    ents: "entries (headers nb') = entries (headers nb1) ++ map_of (rev hs)" and
    flds: "Title nb' = Title nb1" "Output nb' = Output nb1"
          "cells nb' = cells nb1" "console nb' = console nb1"
    by blast
  have "entries (headers nb1) ++ map_of (rev hs)
          = entries (headers nb) ++ map_of (rev (h # hs))"
    by (simp add: entries_AddHeader [OF nb1] h map_add_upd_left fun_eq_iff map_add_def split: option.splits)
  with run ents flds nb1 AddHeader_fields [OF nb1] show ?case
    by (simp add: h)
qed

lemma Headers_entries_cong:
  "entries (headers nb1) = entries (headers nb2) \<Longrightarrow> Headers nb1 = Headers nb2"
proof -
  assume e: "entries (headers nb1) = entries (headers nb2)"
  have "sort (maps_Keys (headers nb1)) = sort (maps_Keys (headers nb2))"
    by (simp add: sort_maps_Keys e)
  moreover have "map_index (headers nb1) = map_index (headers nb2)"
    by (simp add: fun_eq_iff map_index_entries e)
  ultimately show ?thesis by (simp add: Headers_def)
qed

lemma map_of_same_set:
  "set hs = set hs' \<Longrightarrow> distinct (map fst hs) \<Longrightarrow> distinct (map fst hs') \<Longrightarrow>
     map_of (rev hs) = map_of (rev hs')"
  by (simp add: map_of_inject_set distinct_rev rev_map [symmetric])

lemma count_list_distinct:
  "distinct xs \<Longrightarrow> x \<in> set xs \<Longrightarrow> count_list xs x = 1"
  by (induction xs) auto

lemma count_list_notin: "x \<notin> set xs \<Longrightarrow> count_list xs x = 0"
  by (induction xs) auto

lemma AddContents_cells:
  "cells (AddContents nb calls)
     = cells nb @ map (\<lambda>(t, h). \<lparr>content = h, Title = t\<rparr>) calls
   \<and> Title (AddContents nb calls) = Title nb
   \<and> Output (AddContents nb calls) = Output nb
   \<and> headers (AddContents nb calls) = headers nb
   \<and> console (AddContents nb calls) = console nb"
proof (induction calls arbitrary: nb)
  case Nil
  show ?case by simp
next
  case (Cons call calls)
  obtain t h where call: "call = (t, h)" by (cases call)
  show ?case
    by (simp add: call Cons.IH AddContent_def newCell_def Buffer_Write_def)
qed

lemma doc_preamble_cong:
  "Title nb' = Title nb \<Longrightarrow> headers nb' = headers nb \<Longrightarrow> doc_preamble nb' = doc_preamble nb"
  by (simp add: doc_preamble_def)

lemma doc_cells_calls:
  "(\<lambda>c. doc_cell (cell.Title c) (content c)) \<circ> (\<lambda>(t, h). \<lparr>content = h, Title = t\<rparr>)
     = (\<lambda>(t, h). doc_cell t h)"
  by (auto simp: fun_eq_iff)

lemma Render_results:
  "fst (Render w nb s) = fst (Execute w (nbTemplate nb) s)"
  "fst (snd (Render w nb s)) = nb"
  "snd (snd (Render w nb s)) = snd (Execute w (nbTemplate nb) s)"
  by (simp_all add: Render_def split_beta)

lemma nbTemplate_cong:
  assumes "Title nb' = Title nb" "cells nb' = cells nb" "console nb' = console nb"
    and "entries (headers nb') = entries (headers nb)"
  shows "nbTemplate nb' = nbTemplate nb"
proof -
  have "Headers nb' = Headers nb"
    using assms(4) by (rule Headers_entries_cong)
  with assms(1-3) show ?thesis
    by (simp add: nbTemplate_def Cells_def Console_def)
qed

lemma Execute_error_iff:
  "fst (Execute w ps s) = Some e \<longleftrightarrow> Some e \<in> set (writes w ps s)"
  by (induction ps arbitrary: s) (auto split: prod.splits option.splits)

lemma Execute_accepting:
  "(\<And>p t. snd (fst (w p t)) = None) \<Longrightarrow> fst (Execute w ps s) = None"
proof (induction ps arbitrary: s)
  case Nil
  show ?case by simp
next
  case (Cons p ps)
  obtain n r s' where wp: "w p s = ((n, r), s')" by (metis prod.exhaust)
  with Cons.prems [of p s] have "r = None" by simp
  with wp Cons.IH [OF Cons.prems] show ?case by simp
qed

lemma nbTemplate_nonempty: "nbTemplate nb = text_head_open # tl (nbTemplate nb)"
  by (simp add: nbTemplate_def)

lemma literal_text_append:
  "literal_text (s @ t) = literal_text s @ literal_text t"
  by (simp add: literal_text_def htmlReplacer_append)

lemma literal_text_Cons:
  "literal_text (c # s) = literal_text [c] @ literal_text s"
  by (simp add: literal_text_def)

lemma literal_text_specials:
  "literal_text ''<'' = ''&lt;''"
  "literal_text ''>'' = ''&gt;''"
  "literal_text ''&'' = ''&amp;''"
  "literal_text [CHR 0x22] = ''&#34;''"
  "literal_text [CHR 0x27] = ''&#39;''"
  by (simp_all add: literal_text_def htmlReplacementTable_def)

lemma literal_text_no_markup:
  "CHR ''<'' \<notin> set (literal_text s)"
  "CHR ''>'' \<notin> set (literal_text s)"
  "CHR 0x22 \<notin> set (literal_text s)"
  "CHR 0x27 \<notin> set (literal_text s)"
  by (induction s) (auto simp: literal_text_def htmlReplacementTable_def)

lemma Render_page:
  "Render Buffer_Write nb b = (None, nb, b @ doc_page nb)"
  by (simp add: Render_Buffer_Write concat_nbTemplate)

lemma Print_console:
  "snd (Print Sprint nb a) = nb\<lparr>console := console nb @ Sprint a\<rparr>"
  "snd (Printf Sprintf nb format a2) = nb\<lparr>console := console nb @ Sprintf format a2\<rparr>"
  "snd (Println Sprintln nb a3) = nb\<lparr>console := console nb @ Sprintln a3\<rparr>"
  by (simp_all add: Print_def Printf_def Println_def Buffer_Write_def)

lemma doc_page_console:
  "doc_page (nb\<lparr>console := t\<rparr>)
     = doc_preamble nb @ concat (map (\<lambda>c. doc_cell (cell.Title c) (content c)) (cells nb))
       @ doc_console t"
  by (simp add: doc_page_def doc_preamble_def)

lemma doc_page_AddContent:
  "doc_page (AddContent nb title html)
     = doc_preamble nb @ concat (map (\<lambda>c. doc_cell (cell.Title c) (content c)) (cells nb))
       @ doc_cell title html @ doc_console (console nb)"
  by (simp add: doc_page_def doc_preamble_def AddContent_def newCell_def Buffer_Write_def)

lemma Execute_mem_os:
  "map_of fs f = Some old \<Longrightarrow>
     Execute (File_Write mem_os f) ps fs = (None, AList.update f (old @ concat ps) fs)"
proof (induction ps arbitrary: old fs)
  case Nil
  then show ?case by (simp add: AList.update_triv)
next
  case (Cons p ps)
  have w: "File_Write mem_os f p fs = ((length p, None), AList.update f (old @ p) fs)"
    using Cons.prems by (simp add: mem_os_def)
  have "map_of (AList.update f (old @ p) fs) f = Some (old @ p)"
    by (simp add: AList.update_conv')
  from Cons.IH [OF this] w show ?case by simp
qed

lemma Close_create_fails:
  "os_Create sys (Output nb) fs = (Inl e, fs1) \<Longrightarrow>
     Close sys quote nb fs
       = (Some (errorString (''cannot create output file '' @ quote (Output nb))), nb, fs1)"
  by (simp add: Close_def)

lemma Close_render_fails:
  "os_Create sys (Output nb) fs = (Inr f, fs1) \<Longrightarrow>
   Execute (File_Write sys f) (nbTemplate nb) fs1 = (Some e, fs2) \<Longrightarrow>
     Close sys quote nb fs
       = (Some (wrapError (''cannot render notebook: '' @ Error e) e), nb,
          snd (File_Close sys f fs2))"
  by (simp add: Close_def Render_def)

lemma Close_succeeds:
  "os_Create sys (Output nb) fs = (Inr f, fs1) \<Longrightarrow>
   Execute (File_Write sys f) (nbTemplate nb) fs1 = (None, fs2) \<Longrightarrow>
     Close sys quote nb fs = (None, nb, snd (File_Close sys f fs2))"
  by (simp add: Close_def Render_def)

lemma Close_mem_os:
  assumes "Output nb \<noteq> []"
  shows "Close mem_os quote nb fs = (None, nb, AList.update (Output nb) (doc_page nb) fs)"
proof -
  let ?f = "Output nb"
  have c: "os_Create mem_os ?f fs = (Inr ?f, AList.update ?f [] fs)"
    using assms by (simp add: mem_os_def)
  have "map_of (AList.update ?f [] fs) ?f = Some []"
    by (simp add: AList.update_conv')
  from Execute_mem_os [OF this, of "nbTemplate nb"]
  have e: "Execute (File_Write mem_os ?f) (nbTemplate nb) (AList.update ?f [] fs)
             = (None, AList.update ?f (doc_page nb) fs)"
    by (simp add: concat_nbTemplate)
  from Close_succeeds [OF c e, of quote] show ?thesis
    by (simp add: mem_os_def)
qed

lemma path_Base_plain:
  assumes "name \<noteq> []" "CHR ''/'' \<notin> set name"
  shows "path_Base (dir @ ''/'' @ name) = name" and "path_Base name = name"
proof -
  from assms obtain x xs where r: "rev name = x # xs"
    by (cases "rev name") auto
  with assms(2) have x: "x \<noteq> CHR ''/''"
    by (metis list.set_intros(1) set_rev)
  have all: "\<And>c. c \<in> set (rev name) \<Longrightarrow> c \<noteq> CHR ''/''"
    using assms(2) by auto
  have d1: "dropWhile (\<lambda>c. c = CHR ''/'') (rev name @ CHR ''/'' # rev dir)
              = rev name @ CHR ''/'' # rev dir"
    by (simp add: r x)
  have t1: "takeWhile (\<lambda>c. c \<noteq> CHR ''/'') (rev name @ CHR ''/'' # rev dir) = rev name"
    by (subst takeWhile_append2) (use all in simp_all)
  show "path_Base (dir @ ''/'' @ name) = name"
    using assms(1) by (simp add: path_Base_def d1 t1 Let_def)
  have d2: "dropWhile (\<lambda>c. c = CHR ''/'') (rev name) = rev name"
    by (simp add: r x)
  have t2: "takeWhile (\<lambda>c. c \<noteq> CHR ''/'') (rev name) = rev name"
    using all by (simp add: takeWhile_eq_all_conv)
  show "path_Base name = name"
    using assms(1) by (simp add: path_Base_def d2 t2 Let_def)
qed

lemma New_headers:
  "maps_Keys (Some (DAList.update HeaderCellStyle cellStyle DAList.empty)) = [HeaderCellStyle]"
  "entries (Some (DAList.update HeaderCellStyle cellStyle DAList.empty))
     = [HeaderCellStyle \<mapsto> cellStyle]"
  by (simp_all add: maps_Keys_def entries_def DAList.update.rep_eq DAList.empty.rep_eq
      DAList.lookup.rep_eq fun_eq_iff)

lemma head_fragments_single: "head_fragments [k \<mapsto> v] = [v]"
  by (simp add: head_fragments_def)

text \<open>The model reproduces the documented output of \<^verbatim>\<open>ExampleNew_Simple\<close>.\<close>

lemma example_new_simple:
  "(case New strings_Title_ascii [''/tmp/go-build/notebook.test''] of
      Inl p \<Rightarrow> None
    | Inr nb \<Rightarrow>
        (case AddHeader (snd (Print Sprint_strings nb [''Hello world''])) HeaderCellStyle [] of
           Inl p \<Rightarrow> None
         | Inr nb \<Rightarrow> Some (snd (snd (Render Buffer_Write nb [])))))
   = Some example_output"
  by code_simp

section \<open>The claims\<close>

text \<open>
  Claim C1.  The header fragments that rendering emits into the document head come in
  strictly ascending order of their header ids, compared bytewise and lexicographically:
  the emitted sequence is the fragments of an ascending, duplicate-free list of exactly
  the ids of the header mapping, and the page written to a buffer is \<open>doc_page\<close>, which
  places the fragments of \<open>head_fragments\<close> between the title and the end of the head.
  Two notebooks whose header maps hold the same entries, in whatever iteration order, have
  the same fragment sequence; and two runs of \<^verbatim>\<open>AddHeader\<close> calls that make the same
  calls with distinct ids in different orders end with the same fragment sequence.
\<close>

theorem header_determinism:
  "(\<exists>ks. sorted ks \<and> distinct ks \<and> set ks = dom (entries (headers nb))
        \<and> map htmlEscaper (Headers nb) = map (\<lambda>k. the (entries (headers nb) k)) ks)
   \<and> Render Buffer_Write nb b = (None, nb, b @ doc_page nb)
   \<and> (entries (headers nb1) = entries (headers nb2) \<longrightarrow> Headers nb1 = Headers nb2)
   \<and> (set hs = set hs' \<and> distinct (map fst hs) \<and> distinct (map fst hs') \<longrightarrow>
        (\<exists>n1 n2. AddHeaders nb hs = Inr n1 \<and> AddHeaders nb hs' = Inr n2
                 \<and> Headers n1 = Headers n2))"
proof (intro conjI impI)
  let ?m = "entries (headers nb)"
  have fin: "finite (dom ?m)"
    by (metis set_maps_Keys List.finite_set)
  have "map htmlEscaper (Headers nb) = map (\<lambda>k. the (?m k)) (sorted_list_of_set (dom ?m))"
    unfolding Headers_fragments head_fragments_def
  proof (rule map_cong)
    fix k assume "k \<in> set (sorted_list_of_set (dom ?m))"
    with fin have "k \<in> dom ?m" by simp
    then show "(case ?m k of None \<Rightarrow> [] | Some v \<Rightarrow> v) = the (?m k)" by auto
  qed simp
  with fin show "\<exists>ks. sorted ks \<and> distinct ks \<and> set ks = dom ?m
        \<and> map htmlEscaper (Headers nb) = map (\<lambda>k. the (?m k)) ks"
    by (intro exI [of _ "sorted_list_of_set (dom ?m)"]) simp
next
  show "Render Buffer_Write nb b = (None, nb, b @ doc_page nb)"
    by (simp add: Render_Buffer_Write concat_nbTemplate)
next
  assume "entries (headers nb1) = entries (headers nb2)"
  then show "Headers nb1 = Headers nb2" by (rule Headers_entries_cong)
next
  assume a: "set hs = set hs' \<and> distinct (map fst hs) \<and> distinct (map fst hs')"
  obtain n1 where n1: "AddHeaders nb hs = Inr n1"
    "entries (headers n1) = entries (headers nb) ++ map_of (rev hs)"
    using AddHeaders_Inr [of nb hs] by blast
  obtain n2 where n2: "AddHeaders nb hs' = Inr n2"
    "entries (headers n2) = entries (headers nb) ++ map_of (rev hs')"
    using AddHeaders_Inr [of nb hs'] by blast
  from a have "map_of (rev hs) = map_of (rev hs')"
    by (intro map_of_same_set) simp_all
  with n1 n2 have "entries (headers n1) = entries (headers n2)"
    by simp
  then have "Headers n1 = Headers n2"
    by (rule Headers_entries_cong)
  with n1 n2 show "\<exists>n1 n2. AddHeaders nb hs = Inr n1 \<and> AddHeaders nb hs' = Inr n2
                 \<and> Headers n1 = Headers n2"
    by blast
qed

theorem header_determinism_witness:
  "entries (headers example_nb) = entries (headers example_nb_permuted)
   \<and> maps_Keys (headers example_nb) = [''a-style'', ''b-meta'']
   \<and> maps_Keys (headers example_nb_permuted) = [''b-meta'', ''a-style'']
   \<and> Headers example_nb = Headers example_nb_permuted
   \<and> set [(''z'', ''3''), (''a'', ''1'')] = set [(''a'', ''1''), (''z'', ''3'')]
   \<and> distinct (map fst [(''z'', ''3''), (''a'', ''1'')])
   \<and> distinct (map fst [(''a'', ''1''), (''z'', ''3'')])
   \<and> (\<exists>n1 n2. AddHeaders zero_Notebook [(''z'', ''3''), (''a'', ''1'')] = Inr n1
          \<and> AddHeaders zero_Notebook [(''a'', ''1''), (''z'', ''3'')] = Inr n2
          \<and> Headers n1 = Headers n2)"
proof -
  have e: "entries (headers example_nb) = entries (headers example_nb_permuted)"
    by (rule ext)
      (auto simp: example_nb_def example_nb_permuted_def entries_def DAList.lookup_update)
  have k: "maps_Keys (headers example_nb) = [''a-style'', ''b-meta'']"
    "maps_Keys (headers example_nb_permuted) = [''b-meta'', ''a-style'']"
    by code_simp+
  have s: "set [(''z'', ''3''), (''a'', ''1'')] = set [(''a'', ''1''), (''z'', ''3'')]
     \<and> distinct (map fst [(''z'', ''3''), (''a'', ''1'')])
     \<and> distinct (map fst [(''a'', ''1''), (''z'', ''3'')])"
    by auto
  from header_determinism [of zero_Notebook "[]" example_nb example_nb_permuted
      "[(''z'', ''3''), (''a'', ''1'')]" "[(''a'', ''1''), (''z'', ''3'')]"] e k s
  show ?thesis by blast
qed

text \<open>
  Claim C2.  After a run of \<open>N\<close> \<^verbatim>\<open>AddContent\<close> calls the notebook has \<open>N\<close> more
  cells, and the page written to a buffer is the preamble, the blocks of the cells the
  notebook had before, one block per call in call order, each with the call's title as
  summary and its content as body, and then the Console block.  On a notebook that had no
  cells these are exactly \<open>N\<close> blocks.
\<close>

theorem cell_order_preserved:
  "length (cells (AddContents nb calls)) = length (cells nb) + length calls
   \<and> Render Buffer_Write (AddContents nb calls) b
       = (None, AddContents nb calls,
          b @ doc_preamble nb
            @ concat (map (\<lambda>c. doc_cell (cell.Title c) (content c)) (cells nb))
            @ concat (map (\<lambda>(t, h). doc_cell t h) calls)
            @ doc_console (console nb))
   \<and> (cells nb = [] \<longrightarrow>
        length (cells (AddContents nb calls)) = length calls
        \<and> snd (snd (Render Buffer_Write (AddContents nb calls) b))
            = b @ doc_preamble nb
                @ concat (map (\<lambda>(t, h). doc_cell t h) calls)
                @ doc_console (console nb))"
proof -
  let ?nb = "AddContents nb calls"
  note f = AddContents_cells [of nb calls]
  have pre: "doc_preamble ?nb = doc_preamble nb"
    by (rule doc_preamble_cong) (simp_all add: f)
  have page: "doc_page ?nb = doc_preamble nb
            @ concat (map (\<lambda>c. doc_cell (cell.Title c) (content c)) (cells nb))
            @ concat (map (\<lambda>(t, h). doc_cell t h) calls)
            @ doc_console (console nb)"
    unfolding doc_page_def pre by (simp add: f doc_cells_calls)
  have r: "Render Buffer_Write ?nb b = (None, ?nb, b @ doc_page ?nb)"
    by (simp add: Render_Buffer_Write concat_nbTemplate)
  have len: "length (cells ?nb) = length (cells nb) + length calls"
    by (simp add: f)
  show ?thesis
    unfolding r page len by simp
qed

theorem cell_order_preserved_witness:
  "cells example_nb = []
   \<and> length (cells (AddContents example_nb example_calls)) = 2
   \<and> snd (snd (Render Buffer_Write (AddContents example_nb example_calls) []))
       = doc_preamble example_nb
           @ doc_cell ''Plot <1>'' ''<svg></svg>''
           @ doc_cell ''Table'' ''<table><tr><td>1 & 2</td></tr></table>''
           @ doc_console ''x < y''"
proof -
  have c: "cells example_nb = []" "console example_nb = ''x < y''"
    by (simp_all add: example_nb_def)
  from cell_order_preserved [of example_nb example_calls "[]"] c show ?thesis
    by (simp add: example_calls_def)
qed

text \<open>
  Claim C3.  \<^verbatim>\<open>Render\<close> returns the notebook it was given, unchanged.  Its result and
  its effect on the sink depend only on the title, the cells, the console and the entries
  of the header map: a second invocation on the same state, even if the map then iterates
  in another order, returns the same result and leaves a sink that started in the same
  state in the same state.  Into buffers, both invocations append the same bytes.  (The
  sink is taken to hold no reference to the notebook.)
\<close>

theorem render_pure_deterministic:
  "fst (snd (Render w nb s)) = nb
   \<and> (Title nb' = Title nb \<and> cells nb' = cells nb \<and> console nb' = console nb
        \<and> entries (headers nb') = entries (headers nb) \<longrightarrow>
        fst (Render w nb' s) = fst (Render w nb s)
        \<and> snd (snd (Render w nb' s)) = snd (snd (Render w nb s)))
   \<and> Render Buffer_Write nb b1 = (None, nb, b1 @ doc_page nb)
   \<and> Render Buffer_Write (fst (snd (Render Buffer_Write nb b1))) b2 = (None, nb, b2 @ doc_page nb)"
proof (intro conjI impI)
  show "fst (snd (Render w nb s)) = nb"
    by (simp add: Render_results)
next
  assume a: "Title nb' = Title nb \<and> cells nb' = cells nb \<and> console nb' = console nb
        \<and> entries (headers nb') = entries (headers nb)"
  then have t: "nbTemplate nb' = nbTemplate nb"
    by (intro nbTemplate_cong) simp_all
  show "fst (Render w nb' s) = fst (Render w nb s)"
    by (simp add: Render_results t)
  show "snd (snd (Render w nb' s)) = snd (snd (Render w nb s))"
    by (simp add: Render_results t)
next
  show "Render Buffer_Write nb b1 = (None, nb, b1 @ doc_page nb)"
    by (simp add: Render_Buffer_Write concat_nbTemplate)
next
  show "Render Buffer_Write (fst (snd (Render Buffer_Write nb b1))) b2 = (None, nb, b2 @ doc_page nb)"
    by (simp add: Render_Buffer_Write concat_nbTemplate)
qed

theorem render_pure_deterministic_witness:
  "Title example_nb_permuted = Title example_nb
   \<and> cells example_nb_permuted = cells example_nb
   \<and> console example_nb_permuted = console example_nb
   \<and> entries (headers example_nb_permuted) = entries (headers example_nb)
   \<and> fst (snd (Render limited_Writer example_nb (40, []))) = example_nb
   \<and> fst (Render limited_Writer example_nb_permuted (40, []))
       = fst (Render limited_Writer example_nb (40, []))
   \<and> snd (snd (Render limited_Writer example_nb_permuted (40, [])))
       = snd (snd (Render limited_Writer example_nb (40, [])))"
proof -
  have e: "entries (headers example_nb_permuted) = entries (headers example_nb)"
    by (rule ext)
      (auto simp: example_nb_def example_nb_permuted_def entries_def DAList.lookup_update)
  have f: "Title example_nb_permuted = Title example_nb"
    "cells example_nb_permuted = cells example_nb"
    "console example_nb_permuted = console example_nb"
    by (simp_all add: example_nb_permuted_def)
  from render_pure_deterministic [of limited_Writer example_nb "(40, [])" example_nb_permuted]
    e f
  show ?thesis by blast
qed

text \<open>
  Claim C4.  After \<^verbatim>\<open>Print\<close>, \<^verbatim>\<open>Printf\<close> or \<^verbatim>\<open>Println\<close> the rendered page ends
  with the Console block, whose \<^verbatim>\<open>pre\<close> element holds the console text, old and new, as
  literal text: every \<^verbatim>\<open><\<close>, \<^verbatim>\<open>&\<close> and \<^verbatim>\<open>>\<close> is replaced by its entity where it stands,
  and no \<^verbatim>\<open><\<close> or \<^verbatim>\<open>>\<close> is left.  After \<^verbatim>\<open>AddContent\<close> the last cell block holds the
  content argument byte for byte, while its title is literal text.
\<close>

theorem console_escaped_content_verbatim:
  "snd (snd (Render Buffer_Write (snd (Print Sprint nb a)) b))
     = b @ doc_preamble nb @ concat (map (\<lambda>c. doc_cell (cell.Title c) (content c)) (cells nb))
         @ text_console_open @ literal_text (console nb @ Sprint a) @ text_console_close
   \<and> snd (snd (Render Buffer_Write (snd (Printf Sprintf nb format a2)) b))
     = b @ doc_preamble nb @ concat (map (\<lambda>c. doc_cell (cell.Title c) (content c)) (cells nb))
         @ text_console_open @ literal_text (console nb @ Sprintf format a2) @ text_console_close
   \<and> snd (snd (Render Buffer_Write (snd (Println Sprintln nb a3)) b))
     = b @ doc_preamble nb @ concat (map (\<lambda>c. doc_cell (cell.Title c) (content c)) (cells nb))
         @ text_console_open @ literal_text (console nb @ Sprintln a3) @ text_console_close
   \<and> literal_text (s @ CHR ''<'' # t) = literal_text s @ ''&lt;'' @ literal_text t
   \<and> literal_text (s @ CHR ''&'' # t) = literal_text s @ ''&amp;'' @ literal_text t
   \<and> literal_text (s @ CHR ''>'' # t) = literal_text s @ ''&gt;'' @ literal_text t
   \<and> CHR ''<'' \<notin> set (literal_text s) \<and> CHR ''>'' \<notin> set (literal_text s)
   \<and> snd (snd (Render Buffer_Write (AddContent nb title html) b))
     = b @ doc_preamble nb @ concat (map (\<lambda>c. doc_cell (cell.Title c) (content c)) (cells nb))
         @ text_cell_open @ literal_text title @ text_cell_mid @ html @ text_cell_close
         @ text_console_open @ literal_text (console nb) @ text_console_close"
proof -
  have lt: "literal_text (s @ CHR ''<'' # t) = literal_text s @ ''&lt;'' @ literal_text t"
    by (subst literal_text_append, subst literal_text_Cons) (simp only: literal_text_specials)
  have amp: "literal_text (s @ CHR ''&'' # t) = literal_text s @ ''&amp;'' @ literal_text t"
    by (subst literal_text_append, subst literal_text_Cons) (simp only: literal_text_specials)
  have gt: "literal_text (s @ CHR ''>'' # t) = literal_text s @ ''&gt;'' @ literal_text t"
    by (subst literal_text_append, subst literal_text_Cons) (simp only: literal_text_specials)
  have cons: "\<And>t. snd (snd (Render Buffer_Write (nb\<lparr>console := t\<rparr>) b))
     = b @ doc_preamble nb @ concat (map (\<lambda>c. doc_cell (cell.Title c) (content c)) (cells nb))
         @ text_console_open @ literal_text t @ text_console_close"
    by (simp add: Render_page doc_page_console doc_console_def)
  have cell: "snd (snd (Render Buffer_Write (AddContent nb title html) b))
     = b @ doc_preamble nb @ concat (map (\<lambda>c. doc_cell (cell.Title c) (content c)) (cells nb))
         @ text_cell_open @ literal_text title @ text_cell_mid @ html @ text_cell_close
         @ text_console_open @ literal_text (console nb) @ text_console_close"
    by (simp add: Render_page doc_page_AddContent doc_console_def doc_cell_def)
  show ?thesis
    unfolding Print_console cons
    using lt amp gt cell literal_text_no_markup(1,2) [of s]
    by (intro conjI) (rule refl | assumption)+
qed

theorem console_escaped_content_verbatim_witness:
  "snd (snd (Render Buffer_Write (snd (Print Sprint_strings zero_Notebook [''a<b'', '' & c''])) []))
     = text_head_open @ text_head_close @ text_container_open
       @ text_console_open @ ''a&lt;b &amp; c'' @ text_console_close
   \<and> snd (snd (Render Buffer_Write (AddContent zero_Notebook ''1 < 2'' ''<b>1 & 2</b>'') []))
     = text_head_open @ text_head_close @ text_container_open
       @ text_cell_open @ ''1 &lt; 2'' @ text_cell_mid @ ''<b>1 & 2</b>'' @ text_cell_close
       @ text_console_open @ text_console_close"
proof -
  have p: "doc_preamble zero_Notebook = text_head_open @ text_head_close @ text_container_open"
    by (simp add: doc_preamble_def zero_Notebook_def doc_title_def doc_h1_def
        head_fragments_def entries_def)
  have z: "cells zero_Notebook = []" "console zero_Notebook = []"
    by (simp_all add: zero_Notebook_def)
  have l: "literal_text (Sprint_strings [''a<b'', '' & c'']) = ''a&lt;b &amp; c''"
    "literal_text ''1 < 2'' = ''1 &lt; 2''" "literal_text [] = []"
    by code_simp+
  note inst = console_escaped_content_verbatim [of Sprint_strings zero_Notebook
      "[''a<b'', '' & c'']" "[]" "\<lambda>f a. f" "[]" "[]" Sprintln_strings "[]" "[]" "[]"
      "''1 < 2''" "''<b>1 & 2</b>''"]
  from inst have 1:
    "snd (snd (Render Buffer_Write (snd (Print Sprint_strings zero_Notebook [''a<b'', '' & c''])) []))
       = [] @ doc_preamble zero_Notebook
           @ concat (map (\<lambda>c. doc_cell (cell.Title c) (content c)) (cells zero_Notebook))
           @ text_console_open
           @ literal_text (console zero_Notebook @ Sprint_strings [''a<b'', '' & c''])
           @ text_console_close"
    by (rule conjunct1)
  from inst have 2:
    "snd (snd (Render Buffer_Write (AddContent zero_Notebook ''1 < 2'' ''<b>1 & 2</b>'') []))
       = [] @ doc_preamble zero_Notebook
           @ concat (map (\<lambda>c. doc_cell (cell.Title c) (content c)) (cells zero_Notebook))
           @ text_cell_open @ literal_text ''1 < 2'' @ text_cell_mid @ ''<b>1 & 2</b>''
           @ text_cell_close
           @ text_console_open @ literal_text (console zero_Notebook) @ text_console_close"
    by blast
  show ?thesis
    unfolding 1 2 by (simp add: p z l)
qed

text \<open>
  Claim C5.  Two \<^verbatim>\<open>AddHeader\<close> calls with the same id, with any \<^verbatim>\<open>AddHeader\<close> calls
  between them: afterwards the header map holds the second value under that id, the id
  occurs exactly once among the keys, the emitted fragment sequence has the second value
  at the one position of that id (the ids before and after it are other ids), and the
  sequence is the one obtained without the first call.
\<close>

theorem header_overwrite:
  "\<exists>nb'. AddHeaders nb ((i, v1) # mid @ [(i, v2)]) = Inr nb'
      \<and> entries (headers nb') i = Some v2
      \<and> count_list (maps_Keys (headers nb')) i = 1
      \<and> (\<exists>pre post. sort (maps_Keys (headers nb')) = pre @ i # post
            \<and> count_list pre i = 0 \<and> count_list post i = 0
            \<and> map htmlEscaper (Headers nb')
                = map (map_index (headers nb')) pre @ v2 # map (map_index (headers nb')) post)
      \<and> (\<exists>nb''. AddHeaders nb (mid @ [(i, v2)]) = Inr nb'' \<and> Headers nb'' = Headers nb')"
proof -
  let ?hs = "(i, v1) # mid @ [(i, v2)]"
  obtain nb' where run: "AddHeaders nb ?hs = Inr nb'"
    and ents: "entries (headers nb') = entries (headers nb) ++ map_of (rev ?hs)"
    using AddHeaders_Inr [of nb ?hs] by blast
  obtain nb'' where run2: "AddHeaders nb (mid @ [(i, v2)]) = Inr nb''"
    and ents2: "entries (headers nb'') = entries (headers nb) ++ map_of (rev (mid @ [(i, v2)]))"
    using AddHeaders_Inr [of nb "mid @ [(i, v2)]"] by blast
  have at_i: "entries (headers nb') i = Some v2"
    by (simp add: ents)
  then have mem: "i \<in> set (maps_Keys (headers nb'))"
    by (auto simp: set_maps_Keys)
  have one: "count_list (maps_Keys (headers nb')) i = 1"
    using mem by (simp add: count_list_distinct distinct_maps_Keys)
  let ?ks = "sort (maps_Keys (headers nb'))"
  have dks: "distinct ?ks" by (simp add: distinct_maps_Keys)
  from mem have "i \<in> set ?ks" by simp
  then obtain pre post where split: "?ks = pre @ i # post"
    by (meson split_list)
  with dks have notin: "i \<notin> set pre" "i \<notin> set post"
    by auto
  have idx: "map_index (headers nb') i = v2"
    by (simp add: map_index_entries at_i)
  have "map htmlEscaper (Headers nb') = map (map_index (headers nb')) ?ks"
    by (simp add: Headers_def o_def)
  with split idx have frag: "map htmlEscaper (Headers nb')
      = map (map_index (headers nb')) pre @ v2 # map (map_index (headers nb')) post"
    by simp
  have "entries (headers nb'') = entries (headers nb')"
    by (rule ext) (simp add: ents ents2 map_add_def split: option.splits)
  then have same: "Headers nb'' = Headers nb'"
    by (rule Headers_entries_cong)
  from notin have zero: "count_list pre i = 0" "count_list post i = 0"
    by (simp_all add: count_list_notin)
  from split zero frag have ex1: "\<exists>pre post. ?ks = pre @ i # post
            \<and> count_list pre i = 0 \<and> count_list post i = 0
            \<and> map htmlEscaper (Headers nb')
                = map (map_index (headers nb')) pre @ v2 # map (map_index (headers nb')) post"
    by blast
  from run2 same have ex2: "\<exists>nb''. AddHeaders nb (mid @ [(i, v2)]) = Inr nb''
            \<and> Headers nb'' = Headers nb'"
    by blast
  from run at_i one ex1 ex2 show ?thesis
    by blast
qed

theorem header_overwrite_witness:
  "\<exists>nb'. AddHeaders zero_Notebook
            [(''cell-style'', ''<style></style>''), (''meta'', ''<meta>''), (''cell-style'', [])]
          = Inr nb'
      \<and> entries (headers nb') ''cell-style'' = Some []
      \<and> count_list (maps_Keys (headers nb')) ''cell-style'' = 1"
  using header_overwrite [of zero_Notebook "''cell-style''" "''<style></style>''"
      "[(''meta'', ''<meta>'')]" "[]"]
  by auto

text \<open>
  Claim C6.  \<^verbatim>\<open>Close\<close> at an output path that cannot be created (here the empty path
  of the zero notebook): \<^verbatim>\<open>os.Create\<close> fails with an error of the system, and \<^verbatim>\<open>Close\<close>
  returns an error built without \<^verbatim>\<open>%w\<close>, which names the path and wraps nothing, so the
  cause is lost.  On the other path, when rendering fails on a full device, the returned
  error does wrap the cause.  When only closing the file fails, \<^verbatim>\<open>Close\<close> returns no
  error.
\<close>

theorem Close_create_failure_not_wrapped:
  "fst (os_Create mem_os (Output zero_Notebook) fs)
     = Inl (Underlying ''open : no such file or directory'')
   \<and> Close mem_os quote zero_Notebook fs
     = (Some (errorString (''cannot create output file '' @ quote [])), zero_Notebook, fs)
   \<and> Unwrap (errorString (''cannot create output file '' @ quote [])) = None
   \<and> fst (Close full_os quote (zero_Notebook\<lparr>Output := ''out.html''\<rparr>) fs)
     = Some (wrapError ''cannot render notebook: no space left on device''
               (Underlying ''no space left on device''))
   \<and> Unwrap (wrapError ''cannot render notebook: no space left on device''
               (Underlying ''no space left on device''))
     = Some (Underlying ''no space left on device'')
   \<and> fst (File_Close closefail_os ''out.html'' fs) = Some (Underlying ''input/output error'')
   \<and> fst (Close closefail_os quote (zero_Notebook\<lparr>Output := ''out.html''\<rparr>) fs) = None"
proof (intro conjI)
  have c: "os_Create mem_os (Output zero_Notebook) fs
             = (Inl (Underlying ''open : no such file or directory''), fs)"
    by (simp add: mem_os_def zero_Notebook_def)
  then show "fst (os_Create mem_os (Output zero_Notebook) fs)
     = Inl (Underlying ''open : no such file or directory'')"
    by simp
  from Close_create_fails [OF c, of quote]
  show "Close mem_os quote zero_Notebook fs
     = (Some (errorString (''cannot create output file '' @ quote [])), zero_Notebook, fs)"
    by (simp add: zero_Notebook_def)
next
  let ?nb = "zero_Notebook\<lparr>Output := ''out.html''\<rparr>"
  have c: "os_Create full_os (Output ?nb) fs = (Inr ''out.html'', AList.update ''out.html'' [] fs)"
    by (simp add: full_os_def mem_os_def)
  have e: "Execute (File_Write full_os ''out.html'') (nbTemplate ?nb) (AList.update ''out.html'' [] fs)
             = (Some (Underlying ''no space left on device''), AList.update ''out.html'' [] fs)"
    by (subst nbTemplate_nonempty) (simp add: full_os_def)
  from Close_render_fails [OF c e, of quote]
  show "fst (Close full_os quote ?nb fs)
     = Some (wrapError ''cannot render notebook: no space left on device''
               (Underlying ''no space left on device''))"
    by simp
next
  show "fst (File_Close closefail_os ''out.html'' fs) = Some (Underlying ''input/output error'')"
    by (simp add: closefail_os_def)
next
  let ?nb = "zero_Notebook\<lparr>Output := ''out.html''\<rparr>"
  let ?fs1 = "AList.update ''out.html'' [] fs"
  have c: "os_Create closefail_os (Output ?nb) fs = (Inr ''out.html'', ?fs1)"
    by (simp add: closefail_os_def mem_os_def)
  have w: "File_Write closefail_os ''out.html'' = File_Write mem_os ''out.html''"
    by (simp add: closefail_os_def)
  have "map_of ?fs1 ''out.html'' = Some []"
    by (simp add: AList.update_conv')
  from Execute_mem_os [OF this, of "nbTemplate ?nb"]
  have e: "Execute (File_Write closefail_os ''out.html'') (nbTemplate ?nb) ?fs1
             = (None, AList.update ''out.html'' ([] @ concat (nbTemplate ?nb)) ?fs1)"
    by (simp only: w)
  from Close_succeeds [OF c e, of quote]
  show "fst (Close closefail_os quote ?nb fs) = None"
    by simp
qed simp_all

text \<open>
  Claim C7.  \<^verbatim>\<open>Render\<close> returns an error exactly when one of the writes it makes to the
  sink returns that error.  With a sink that accepts every write it returns no error,
  whatever the notebook holds.  It always makes at least one write, so a sink that rejects
  every write makes it fail.
\<close>

theorem render_fails_iff_write_fails:
  "(fst (Render w nb s) = Some e \<longleftrightarrow> Some e \<in> set (writes w (nbTemplate nb) s))
   \<and> ((\<forall>p t. snd (fst (w p t)) = None) \<longrightarrow> fst (Render w nb s) = None)
   \<and> writes w (nbTemplate nb) s \<noteq> []
   \<and> fst (Render closed_Writer nb ()) = Some (Underlying ''write on closed stream'')"
proof (intro conjI impI)
  show "fst (Render w nb s) = Some e \<longleftrightarrow> Some e \<in> set (writes w (nbTemplate nb) s)"
    by (simp add: Render_results Execute_error_iff)
next
  assume "\<forall>p t. snd (fst (w p t)) = None"
  then have "fst (Execute w (nbTemplate nb) s) = None"
    by (intro Execute_accepting) simp
  then show "fst (Render w nb s) = None"
    by (simp add: Render_results)
next
  show "writes w (nbTemplate nb) s \<noteq> []"
    by (subst nbTemplate_nonempty) (simp split: prod.splits option.splits)
next
  show "fst (Render closed_Writer nb ()) = Some (Underlying ''write on closed stream'')"
    by (subst Render_results, subst nbTemplate_nonempty) (simp add: closed_Writer_def)
qed

theorem render_fails_iff_write_fails_witness:
  "(\<forall>p t. snd (fst (Buffer_Write p t)) = None)
   \<and> fst (Render Buffer_Write example_nb []) = None
   \<and> Some (Underlying ''no space left on device'')
        \<in> set (writes limited_Writer (nbTemplate example_nb) (40, []))
   \<and> fst (Render limited_Writer example_nb (40, [])) = Some (Underlying ''no space left on device'')"
proof -
  have a: "\<forall>p t. snd (fst (Buffer_Write p t)) = None"
    by (simp add: Buffer_Write_def)
  have w: "writes limited_Writer (nbTemplate example_nb) (40, [])
             = [None, None, Some (Underlying ''no space left on device'')]"
    by code_simp
  from render_fails_iff_write_fails [of Buffer_Write example_nb "[]"] a
  have 1: "fst (Render Buffer_Write example_nb []) = None"
    by blast
  from render_fails_iff_write_fails [of limited_Writer example_nb "(40, [])"
      "Underlying ''no space left on device''"] w
  have 2: "fst (Render limited_Writer example_nb (40, []))
             = Some (Underlying ''no space left on device'')"
    by simp
  from a 1 2 w show ?thesis by simp
qed

text \<open>
  Claim C8.  \<^verbatim>\<open>New\<close> panics on an empty argument vector and otherwise returns a
  notebook without cells, with an empty console and with the single header
  \<^verbatim>\<open>"cell-style"\<close> whose fragment is \<open>cellStyle\<close>.  Its output path is the base name of
  the program followed by \<^verbatim>\<open>.html\<close> and its title is \<^verbatim>\<open>strings.Title\<close> of that base name;
  the base name of a path is its last element.  A title assigned afterwards is the title
  that is rendered, and an output path assigned afterwards is the file that \<^verbatim>\<open>Close\<close>
  writes.
\<close>

theorem New_defaults:
  "New strings_Title [] = Inl IndexOutOfRange
   \<and> (\<exists>nb. New strings_Title (arg0 # rest) = Inr nb
        \<and> cells nb = [] \<and> console nb = []
        \<and> maps_Keys (headers nb) = [HeaderCellStyle] \<and> HeaderCellStyle = ''cell-style''
        \<and> entries (headers nb) = [HeaderCellStyle \<mapsto> cellStyle]
        \<and> Headers nb = [HTMLVal cellStyle]
        \<and> Output nb = path_Base arg0 @ ''.html''
        \<and> Title nb = strings_Title (path_Base arg0)
        \<and> snd (snd (Render Buffer_Write (nb\<lparr>Title := t\<rparr>) b))
            = b @ text_head_open @ doc_title t @ cellStyle @ text_head_close @ doc_h1 t
                @ text_container_open @ doc_console []
        \<and> (out \<noteq> [] \<longrightarrow>
             Close mem_os quote (nb\<lparr>Output := out\<rparr>) fs
               = (None, nb\<lparr>Output := out\<rparr>, AList.update out (doc_page nb) fs)))
   \<and> (name \<noteq> [] \<and> CHR ''/'' \<notin> set name \<longrightarrow>
        path_Base (dir @ ''/'' @ name) = name \<and> path_Base name = name)"
proof (intro conjI)
  show "New strings_Title [] = Inl IndexOutOfRange"
    by (simp add: New_def)
next
  define nb where "nb = \<lparr>Title = strings_Title (path_Base arg0),
                   Output = path_Base arg0 @ ''.html'',
                   cells = [],
                   headers = Some (DAList.update HeaderCellStyle cellStyle DAList.empty),
                   console = []\<rparr>"
  have new: "New strings_Title (arg0 # rest) = Inr nb"
    by (simp add: New_def nb_def Let_def)
  have flds: "cells nb = []" "console nb = []"
    "Output nb = path_Base arg0 @ ''.html''" "Title nb = strings_Title (path_Base arg0)"
    "headers nb = Some (DAList.update HeaderCellStyle cellStyle DAList.empty)"
    by (simp_all add: nb_def)
  have keys: "maps_Keys (headers nb) = [HeaderCellStyle]"
    and ents: "entries (headers nb) = [HeaderCellStyle \<mapsto> cellStyle]"
    by (simp_all add: flds New_headers)
  have hs: "Headers nb = [HTMLVal cellStyle]"
    by (simp add: Headers_def keys map_index_entries ents)
  have page: "snd (snd (Render Buffer_Write (nb\<lparr>Title := t\<rparr>) b))
            = b @ text_head_open @ doc_title t @ cellStyle @ text_head_close @ doc_h1 t
                @ text_container_open @ doc_console []"
    by (simp add: Render_page doc_page_def doc_preamble_def flds(1,2) ents head_fragments_single)
  have close: "out \<noteq> [] \<longrightarrow>
             Close mem_os quote (nb\<lparr>Output := out\<rparr>) fs
               = (None, nb\<lparr>Output := out\<rparr>, AList.update out (doc_page nb) fs)"
  proof
    assume "out \<noteq> []"
    then have "Output (nb\<lparr>Output := out\<rparr>) \<noteq> []" by simp
    from Close_mem_os [OF this, of quote fs] show "Close mem_os quote (nb\<lparr>Output := out\<rparr>) fs
               = (None, nb\<lparr>Output := out\<rparr>, AList.update out (doc_page nb) fs)"
      by (simp add: doc_page_def doc_preamble_def)
  qed
  have name: "HeaderCellStyle = ''cell-style''"
    by (simp add: HeaderCellStyle_def)
  from new flds(1-4) keys name ents hs page close
  show "\<exists>nb. New strings_Title (arg0 # rest) = Inr nb
        \<and> cells nb = [] \<and> console nb = []
        \<and> maps_Keys (headers nb) = [HeaderCellStyle] \<and> HeaderCellStyle = ''cell-style''
        \<and> entries (headers nb) = [HeaderCellStyle \<mapsto> cellStyle]
        \<and> Headers nb = [HTMLVal cellStyle]
        \<and> Output nb = path_Base arg0 @ ''.html''
        \<and> Title nb = strings_Title (path_Base arg0)
        \<and> snd (snd (Render Buffer_Write (nb\<lparr>Title := t\<rparr>) b))
            = b @ text_head_open @ doc_title t @ cellStyle @ text_head_close @ doc_h1 t
                @ text_container_open @ doc_console []
        \<and> (out \<noteq> [] \<longrightarrow>
             Close mem_os quote (nb\<lparr>Output := out\<rparr>) fs
               = (None, nb\<lparr>Output := out\<rparr>, AList.update out (doc_page nb) fs))"
    by (intro exI [of _ nb] conjI) assumption+
next
  show "name \<noteq> [] \<and> CHR ''/'' \<notin> set name \<longrightarrow>
        path_Base (dir @ ''/'' @ name) = name \<and> path_Base name = name"
    using path_Base_plain(1) [of name dir] path_Base_plain(2) [of name] by blast
qed

theorem New_defaults_witness:
  "''notebook.test'' \<noteq> [] \<and> CHR ''/'' \<notin> set ''notebook.test''
   \<and> path_Base ''/tmp/go-build/notebook.test'' = ''notebook.test''
   \<and> ''report.html'' \<noteq> []
   \<and> (\<exists>nb. New strings_Title_ascii [''/tmp/go-build/notebook.test''] = Inr nb
          \<and> cells nb = [] \<and> console nb = []
          \<and> Headers nb = [HTMLVal cellStyle]
          \<and> Output nb = ''notebook.test.html''
          \<and> Title nb = ''Notebook.Test''
          \<and> fst (Close mem_os (\<lambda>s. s) (nb\<lparr>Output := ''report.html''\<rparr>) []) = None)"
proof -
  have n: "''notebook.test'' \<noteq> [] \<and> CHR ''/'' \<notin> set ''notebook.test''"
    by simp
  have o: "''report.html'' \<noteq> []"
    by simp
  note inst = New_defaults [of strings_Title_ascii "''/tmp/go-build/notebook.test''" "[]" "[]" "[]"
      "''report.html''" "\<lambda>s. s" "[]" "''notebook.test''" "''/tmp/go-build''"]
  from inst n have b: "path_Base ''/tmp/go-build/notebook.test'' = ''notebook.test''"
    by simp
  have t: "strings_Title_ascii ''notebook.test'' = ''Notebook.Test''"
    by code_simp
  from inst o obtain nb where
    "New strings_Title_ascii [''/tmp/go-build/notebook.test''] = Inr nb"
    "cells nb = []" "console nb = []" "Headers nb = [HTMLVal cellStyle]"
    "Output nb = path_Base ''/tmp/go-build/notebook.test'' @ ''.html''"
    "Title nb = strings_Title_ascii (path_Base ''/tmp/go-build/notebook.test'')"
    "Close mem_os (\<lambda>s. s) (nb\<lparr>Output := ''report.html''\<rparr>) []
       = (None, nb\<lparr>Output := ''report.html''\<rparr>, AList.update ''report.html'' (doc_page nb) [])"
    by blast
  with n o b t show ?thesis
    by (intro conjI exI [of _ nb]) simp_all
qed

text \<open>
  Claim C9.  In the rendered page the notebook title, inside \<^verbatim>\<open><title>\<close> and inside
  \<^verbatim>\<open><h1>\<close>, and the title of every cell, inside \<^verbatim>\<open><summary>\<close>, are literal text, while
  the content of the cell follows verbatim.  In literal text every \<^verbatim>\<open><\<close>, \<^verbatim>\<open>>\<close>,
  \<^verbatim>\<open>&\<close>, double quote and single quote is replaced by its entity where it stands, and none
  of \<^verbatim>\<open><\<close>, \<^verbatim>\<open>>\<close> and the two quotes is left.  An empty notebook title gives neither
  element.
\<close>

theorem titles_are_literal_text:
  "snd (snd (Render Buffer_Write nb b))
     = b @ text_head_open @ doc_title (Title nb)
         @ concat (head_fragments (entries (headers nb)))
         @ text_head_close @ doc_h1 (Title nb) @ text_container_open
         @ concat (map (\<lambda>c. text_cell_open @ literal_text (cell.Title c) @ text_cell_mid
                              @ content c @ text_cell_close) (cells nb))
         @ doc_console (console nb)
   \<and> (Title nb \<noteq> [] \<longrightarrow>
         doc_title (Title nb) = ''<title>'' @ literal_text (Title nb) @ ''</title>''
         \<and> doc_h1 (Title nb) = ''<h1>'' @ literal_text (Title nb) @ ''</h1>'')
   \<and> doc_title [] = [] \<and> doc_h1 [] = []
   \<and> literal_text (s @ CHR ''<'' # t) = literal_text s @ ''&lt;'' @ literal_text t
   \<and> literal_text (s @ CHR ''>'' # t) = literal_text s @ ''&gt;'' @ literal_text t
   \<and> literal_text (s @ CHR ''&'' # t) = literal_text s @ ''&amp;'' @ literal_text t
   \<and> literal_text (s @ CHR 0x22 # t) = literal_text s @ ''&#34;'' @ literal_text t
   \<and> literal_text (s @ CHR 0x27 # t) = literal_text s @ ''&#39;'' @ literal_text t
   \<and> CHR ''<'' \<notin> set (literal_text s) \<and> CHR ''>'' \<notin> set (literal_text s)
   \<and> CHR 0x22 \<notin> set (literal_text s) \<and> CHR 0x27 \<notin> set (literal_text s)"
proof -
  have page: "snd (snd (Render Buffer_Write nb b))
     = b @ text_head_open @ doc_title (Title nb)
         @ concat (head_fragments (entries (headers nb)))
         @ text_head_close @ doc_h1 (Title nb) @ text_container_open
         @ concat (map (\<lambda>c. text_cell_open @ literal_text (cell.Title c) @ text_cell_mid
                              @ content c @ text_cell_close) (cells nb))
         @ doc_console (console nb)"
    by (simp add: Render_page doc_page_def doc_preamble_def doc_cell_def)
  have ent: "literal_text (s @ CHR ''<'' # t) = literal_text s @ ''&lt;'' @ literal_text t"
    "literal_text (s @ CHR ''>'' # t) = literal_text s @ ''&gt;'' @ literal_text t"
    "literal_text (s @ CHR ''&'' # t) = literal_text s @ ''&amp;'' @ literal_text t"
    "literal_text (s @ CHR 0x22 # t) = literal_text s @ ''&#34;'' @ literal_text t"
    "literal_text (s @ CHR 0x27 # t) = literal_text s @ ''&#39;'' @ literal_text t"
    by (subst literal_text_append, subst literal_text_Cons, simp only: literal_text_specials)+
  have el: "Title nb \<noteq> [] \<longrightarrow>
         doc_title (Title nb) = ''<title>'' @ literal_text (Title nb) @ ''</title>''
         \<and> doc_h1 (Title nb) = ''<h1>'' @ literal_text (Title nb) @ ''</h1>''"
    "doc_title [] = []" "doc_h1 [] = []"
    by (simp_all add: doc_title_def doc_h1_def)
  from page ent el literal_text_no_markup [of s] show ?thesis
    by (intro conjI) assumption+
qed

theorem titles_are_literal_text_witness:
  "Title example_nb \<noteq> []
   \<and> doc_title (Title example_nb) = ''<title>R&amp;D &lt;demo&gt;</title>''
   \<and> doc_h1 (Title example_nb) = ''<h1>R&amp;D &lt;demo&gt;</h1>''"
proof -
  have t: "Title example_nb \<noteq> []"
    by (simp add: example_nb_def)
  have l: "literal_text (Title example_nb) = ''R&amp;D &lt;demo&gt;''"
    by code_simp
  from titles_are_literal_text [of example_nb "[]" "[]" "[]"] t
  have "doc_title (Title example_nb) = ''<title>'' @ literal_text (Title example_nb) @ ''</title>''
         \<and> doc_h1 (Title example_nb) = ''<h1>'' @ literal_text (Title example_nb) @ ''</h1>''"
    by blast
  with t l show ?thesis by simp
qed

text \<open>
  Claim C10.  \<^verbatim>\<open>AddHeader\<close> never panics: on every notebook it returns the notebook
  with the fragment registered under the id and nothing else changed.  The header map of
  the zero notebook is nil, where a map assignment alone would panic; \<^verbatim>\<open>AddHeader\<close> on
  it yields a notebook whose only header is the new one, so the default stylesheet is
  absent, as it is from the zero notebook itself.
\<close>

theorem AddHeader_total:
  "(\<exists>nb'. AddHeader nb i v = Inr nb'
       \<and> entries (headers nb') = (entries (headers nb))(i \<mapsto> v)
       \<and> Title nb' = Title nb \<and> Output nb' = Output nb
       \<and> cells nb' = cells nb \<and> console nb' = console nb)
   \<and> headers zero_Notebook = None
   \<and> map_assign (headers zero_Notebook) i v = Inl AssignToNilMap
   \<and> (\<exists>nb0. AddHeader zero_Notebook i v = Inr nb0
          \<and> maps_Keys (headers nb0) = [i] \<and> Headers nb0 = [HTMLVal v])
   \<and> Headers zero_Notebook = []"
proof (intro conjI)
  obtain nb' where r: "AddHeader nb i v = Inr nb'"
    by (simp add: AddHeader_Inr)
  with entries_AddHeader [OF r] AddHeader_fields [OF r]
  show "\<exists>nb'. AddHeader nb i v = Inr nb'
       \<and> entries (headers nb') = (entries (headers nb))(i \<mapsto> v)
       \<and> Title nb' = Title nb \<and> Output nb' = Output nb
       \<and> cells nb' = cells nb \<and> console nb' = console nb"
    by simp
next
  show "headers zero_Notebook = None" by (simp add: zero_Notebook_def)
next
  show "map_assign (headers zero_Notebook) i v = Inl AssignToNilMap"
    by (simp add: zero_Notebook_def map_assign_def)
next
  show "\<exists>nb0. AddHeader zero_Notebook i v = Inr nb0
          \<and> maps_Keys (headers nb0) = [i] \<and> Headers nb0 = [HTMLVal v]"
    by (simp add: AddHeader_Inr zero_Notebook_def maps_Keys_def Headers_def map_index_def
        DAList.update.rep_eq DAList.empty.rep_eq DAList.lookup.rep_eq)
next
  show "Headers zero_Notebook = []"
    by (simp add: zero_Notebook_def Headers_def maps_Keys_def)
qed

theorem AddHeader_total_witness:
  "headers zero_Notebook = None
   \<and> (\<exists>nb0. AddHeader zero_Notebook ''viewport'' ''<meta>'' = Inr nb0
          \<and> maps_Keys (headers nb0) = [''viewport''] \<and> Headers nb0 = [HTMLVal ''<meta>''])"
  using AddHeader_total [of zero_Notebook "''viewport''" "''<meta>''"]
  by blast

end
